theory Spec2Isabelle
  imports Complex_Main
begin

section \<open>The seeding script \<^verbatim>\<open>scripts/seed-firestore.ts\<close>\<close>

text \<open>
  A shallow embedding of the script. A JavaScript string is modelled by the bytes of its
  UTF-8 encoding (\<^typ>\<open>string\<close>); every string operation the script uses
  (\<^verbatim>\<open>startsWith('--')\<close>, \<^verbatim>\<open>split(',')\<close>, \<^verbatim>\<open>replace(/-/g, '')\<close>,
  \<^verbatim>\<open>includes\<close>, \<^verbatim>\<open>endsWith('.json')\<close>) looks for ASCII characters only, and
  an ASCII byte never occurs inside a multi-byte sequence, so these operations agree on
  both representations. A value that may be \<^verbatim>\<open>undefined\<close> is an \<^typ>\<open>'a option\<close>.
\<close>

subsection \<open>String operations of the language\<close>

definition startsWith :: "string \<Rightarrow> string \<Rightarrow> bool" where
  "startsWith s p = (take (length p) s = p)"

definition endsWith :: "string \<Rightarrow> string \<Rightarrow> bool" where
  "endsWith s p = (length p \<le> length s \<and> drop (length s - length p) s = p)"

fun str_includes :: "string \<Rightarrow> string \<Rightarrow> bool" where
  "str_includes [] p = (p = [])"
| "str_includes (c # cs) p = (startsWith (c # cs) p \<or> str_includes cs p)"

text \<open>\<^verbatim>\<open>s.slice(a)\<close> and \<^verbatim>\<open>s.slice(a, b)\<close> for indices that are not negative.\<close>

definition slice_from :: "nat \<Rightarrow> string \<Rightarrow> string" where
  "slice_from a s = drop a s"

definition slice :: "nat \<Rightarrow> nat \<Rightarrow> string \<Rightarrow> string" where
  "slice a b s = take (b - a) (drop a s)"

text \<open>\<^verbatim>\<open>s.split(c)\<close> for a one-character separator: the result is never empty.\<close>

fun str_split :: "char \<Rightarrow> string \<Rightarrow> string list" where
  "str_split c [] = [[]]"
| "str_split c (x # xs) =
     (if x = c then [] # str_split c xs
      else (case str_split c xs of [] \<Rightarrow> [[x]] | y # ys \<Rightarrow> (x # y) # ys))"

text \<open>\<^verbatim>\<open>s.replace(/-/g, '')\<close>.\<close>

definition removeHyphens :: "string \<Rightarrow> string" where
  "removeHyphens s = filter (\<lambda>c. c \<noteq> CHR ''-'') s"

text \<open>\<^verbatim>\<open>xs[i]\<close>, which is \<^verbatim>\<open>undefined\<close> out of range.\<close>

definition element :: "'a list \<Rightarrow> nat \<Rightarrow> 'a option" where
  "element xs i = (if i < length xs then Some (xs ! i) else None)"

text \<open>\<^verbatim>\<open>a ?? b\<close>.\<close>

definition nullish :: "'a option \<Rightarrow> 'a \<Rightarrow> 'a" where
  "nullish a b = (case a of None \<Rightarrow> b | Some v \<Rightarrow> v)"

text \<open>A value inside a template literal: \<^verbatim>\<open>undefined\<close> prints as that word.\<close>

definition templ :: "string option \<Rightarrow> string" where
  "templ a = (case a of None \<Rightarrow> ''undefined'' | Some s \<Rightarrow> s)"

subsection \<open>Numbers and \<^verbatim>\<open>Number(string)\<close>\<close>

text \<open>
  \<open>Fin r\<close> stands for the binary64 value nearest to the rational \<open>r\<close>; rounding is not
  modelled, and neither is the sign of zero. Rounding never yields \<open>NaN\<close>, so
  \<^verbatim>\<open>Number.isNaN\<close> is exact on this model.
\<close>

datatype jsnum = NaN | PosInfinity | NegInfinity | Fin rat

definition isNaN :: "jsnum \<Rightarrow> bool" where
  "isNaN n = (n = NaN)"

definition isDigit :: "char \<Rightarrow> bool" where
  "isDigit c = (c \<in> set ''0123456789'')"

definition digitVal :: "char \<Rightarrow> nat" where
  "digitVal c =
     (let n = (of_char c :: nat) in
      if 48 \<le> n \<and> n \<le> 57 then n - 48
      else if 97 \<le> n \<and> n \<le> 102 then n - 87
      else if 65 \<le> n \<and> n \<le> 70 then n - 55
      else 0)"

definition digitsVal :: "nat \<Rightarrow> string \<Rightarrow> nat" where
  "digitsVal base ds = foldl (\<lambda>a c. base * a + digitVal c) 0 ds"

text \<open>
  The white space and line terminators that \<^verbatim>\<open>Number\<close> strips from both ends, as
  UTF-8 byte sequences: TAB, LF, VT, FF, CR, SP, U+00A0, U+1680, U+2000 to U+200A,
  U+2028, U+2029, U+202F, U+205F, U+3000 and U+FEFF.
\<close>

definition StrWhiteSpaceChar :: "string list" where
  "StrWhiteSpaceChar =
     [[CHR 0x09], [CHR 0x0A], [CHR 0x0B], [CHR 0x0C], [CHR 0x0D], [CHR 0x20],
      [CHR 0xC2, CHR 0xA0], [CHR 0xE1, CHR 0x9A, CHR 0x80],
      [CHR 0xE2, CHR 0x80, CHR 0x80], [CHR 0xE2, CHR 0x80, CHR 0x81],
      [CHR 0xE2, CHR 0x80, CHR 0x82], [CHR 0xE2, CHR 0x80, CHR 0x83],
      [CHR 0xE2, CHR 0x80, CHR 0x84], [CHR 0xE2, CHR 0x80, CHR 0x85],
      [CHR 0xE2, CHR 0x80, CHR 0x86], [CHR 0xE2, CHR 0x80, CHR 0x87],
      [CHR 0xE2, CHR 0x80, CHR 0x88], [CHR 0xE2, CHR 0x80, CHR 0x89],
      [CHR 0xE2, CHR 0x80, CHR 0x8A], [CHR 0xE2, CHR 0x80, CHR 0xA8],
      [CHR 0xE2, CHR 0x80, CHR 0xA9], [CHR 0xE2, CHR 0x80, CHR 0xAF],
      [CHR 0xE2, CHR 0x81, CHR 0x9F], [CHR 0xE3, CHR 0x80, CHR 0x80],
      [CHR 0xEF, CHR 0xBB, CHR 0xBF]]"

text \<open>The length of the first of the patterns \<open>ps\<close> that \<open>s\<close> starts with, 0 if none.\<close>

definition leadLen :: "string list \<Rightarrow> string \<Rightarrow> nat" where
  "leadLen ps s =
     (case find (\<lambda>p. p \<noteq> [] \<and> startsWith s p) ps of None \<Rightarrow> 0 | Some p \<Rightarrow> length p)"

function trimLead :: "string list \<Rightarrow> string \<Rightarrow> string" where
  "trimLead ps s = (if leadLen ps s = 0 then s else trimLead ps (drop (leadLen ps s) s))"
  by pat_completeness auto

termination trimLead
proof (relation "measure (\<lambda>(ps, s). length s)")
  show "wf (measure (\<lambda>(ps, s). length s))" by simp
next
  fix ps :: "string list" and s :: string
  assume nz: "leadLen ps s \<noteq> 0"
  have "leadLen ps s \<le> length s"
  proof (cases "find (\<lambda>p. p \<noteq> [] \<and> startsWith s p) ps")
    case None
    then show ?thesis by (simp add: leadLen_def)
  next
    case (Some p)
    then have "take (length p) s = p" by (auto simp: find_Some_iff startsWith_def)
    then have "length (take (length p) s) = length p" by simp
    then have "length p \<le> length s" by simp
    with Some show ?thesis by (simp add: leadLen_def)
  qed
  with nz show "((ps, drop (leadLen ps s) s), (ps, s)) \<in> measure (\<lambda>(ps, s). length s)"
    by simp
qed

definition trimWhiteSpace :: "string \<Rightarrow> string" where
  "trimWhiteSpace s =
     rev (trimLead (map rev StrWhiteSpaceChar) (rev (trimLead StrWhiteSpaceChar s)))"

definition pow10 :: "int \<Rightarrow> rat" where
  "pow10 k = (if 0 \<le> k then 10 ^ nat k else 1 / 10 ^ nat (- k))"

text \<open>\<^verbatim>\<open>0x\<close>, \<^verbatim>\<open>0o\<close> and \<^verbatim>\<open>0b\<close> literals (unsigned); \<open>None\<close> when \<open>t\<close> has no such prefix.\<close>

definition radixOf :: "char \<Rightarrow> nat option" where
  "radixOf c =
     (if c = CHR ''x'' \<or> c = CHR ''X'' then Some 16
      else if c = CHR ''o'' \<or> c = CHR ''O'' then Some 8
      else if c = CHR ''b'' \<or> c = CHR ''B'' then Some 2
      else None)"

definition isRadixDigit :: "nat \<Rightarrow> char \<Rightarrow> bool" where
  "isRadixDigit base c =
     (c \<in> set ''0123456789abcdefABCDEF'' \<and> digitVal c < base)"

definition NonDecimalIntegerLiteral :: "string \<Rightarrow> jsnum option" where
  "NonDecimalIntegerLiteral t =
     (case t of
        z # r # ds \<Rightarrow>
          (if z = CHR ''0'' then
             (case radixOf r of
                None \<Rightarrow> None
              | Some base \<Rightarrow>
                  Some (if ds \<noteq> [] \<and> list_all (isRadixDigit base) ds
                        then Fin (of_nat (digitsVal base ds)) else NaN))
           else None)
      | _ \<Rightarrow> None)"

text \<open>
  An unsigned decimal literal: \<^verbatim>\<open>Infinity\<close>, or digits with an optional fraction and
  an optional exponent, at least one digit before or after the point.
\<close>

definition ExponentPart :: "string \<Rightarrow> int option" where
  "ExponentPart r =
     (case r of
        [] \<Rightarrow> Some 0
      | e # r1 \<Rightarrow>
          (if e = CHR ''e'' \<or> e = CHR ''E'' then
             (let neg = (r1 \<noteq> [] \<and> hd r1 = CHR ''-'');
                  r2 = (if r1 \<noteq> [] \<and> (hd r1 = CHR ''-'' \<or> hd r1 = CHR ''+'') then tl r1 else r1)
              in if r2 \<noteq> [] \<and> list_all isDigit r2
                 then Some (if neg then - int (digitsVal 10 r2) else int (digitsVal 10 r2))
                 else None)
           else None))"

definition StrUnsignedDecimalLiteral :: "string \<Rightarrow> jsnum" where
  "StrUnsignedDecimalLiteral u =
     (if u = ''Infinity'' then PosInfinity
      else
        (let ip = takeWhile isDigit u;
             r1 = dropWhile isDigit u;
             dot = (r1 \<noteq> [] \<and> hd r1 = CHR ''.'');
             fp = (if dot then takeWhile isDigit (tl r1) else []);
             r2 = (if dot then dropWhile isDigit (tl r1) else r1)
         in if ip = [] \<and> fp = [] then NaN
            else (case ExponentPart r2 of
                    None \<Rightarrow> NaN
                  | Some e \<Rightarrow> Fin (of_nat (digitsVal 10 (ip @ fp)) * pow10 (e - int (length fp))))))"

definition negate :: "jsnum \<Rightarrow> jsnum" where
  "negate n =
     (case n of NaN \<Rightarrow> NaN | PosInfinity \<Rightarrow> NegInfinity | NegInfinity \<Rightarrow> PosInfinity
      | Fin r \<Rightarrow> Fin (- r))"

text \<open>\<^verbatim>\<open>Number(s)\<close> for a string \<open>s\<close>: the empty or all-blank string is 0.\<close>

definition Number :: "string \<Rightarrow> jsnum" where
  "Number s =
     (let t = trimWhiteSpace s in
      if t = [] then Fin 0
      else (case NonDecimalIntegerLiteral t of
              Some n \<Rightarrow> n
            | None \<Rightarrow>
                (if hd t = CHR ''-'' then negate (StrUnsignedDecimalLiteral (tl t))
                 else if hd t = CHR ''+'' then StrUnsignedDecimalLiteral (tl t)
                 else StrUnsignedDecimalLiteral t)))"

subsection \<open>Arithmetic on numbers\<close>

definition num_add :: "jsnum \<Rightarrow> jsnum \<Rightarrow> jsnum" where
  "num_add a b =
     (case (a, b) of
        (Fin x, Fin y) \<Rightarrow> Fin (x + y)
      | (NaN, _) \<Rightarrow> NaN
      | (_, NaN) \<Rightarrow> NaN
      | (PosInfinity, NegInfinity) \<Rightarrow> NaN
      | (NegInfinity, PosInfinity) \<Rightarrow> NaN
      | (PosInfinity, _) \<Rightarrow> PosInfinity
      | (NegInfinity, _) \<Rightarrow> NegInfinity
      | (_, PosInfinity) \<Rightarrow> PosInfinity
      | (_, NegInfinity) \<Rightarrow> NegInfinity)"

text \<open>\<^verbatim>\<open>a / n\<close> for the length \<open>n\<close> of an array.\<close>

definition num_div_length :: "jsnum \<Rightarrow> nat \<Rightarrow> jsnum" where
  "num_div_length a n =
     (case a of
        Fin x \<Rightarrow>
          (if n \<noteq> 0 then Fin (x / of_nat n)
           else if 0 < x then PosInfinity else if x < 0 then NegInfinity else NaN)
      | _ \<Rightarrow> a)"

definition Math_round :: "jsnum \<Rightarrow> jsnum" where
  "Math_round a = (case a of Fin x \<Rightarrow> Fin (of_int \<lfloor>x + 1 / 2\<rfloor>) | _ \<Rightarrow> a)"

subsection \<open>Values, documents and \<^verbatim>\<open>JSON.stringify\<close>\<close>

datatype jsval =
    Undefined
  | Null
  | Bool bool
  | Num jsnum
  | Str string
  | Arr "jsval list"
  | Obj "(string \<times> jsval) list"

text \<open>
  A document handed to the store is an object literal whose fields are plain values or the
  sentinel \<^verbatim>\<open>FieldValue.serverTimestamp()\<close>; the script puts the sentinel at the top
  level only.
\<close>

datatype field = Val jsval | ServerTimestamp

type_synonym document = "(string \<times> field) list"

abbreviation N :: "rat \<Rightarrow> jsval" where
  "N r \<equiv> Num (Fin r)"

text \<open>\<^verbatim>\<open>entry.key\<close>, and the operand of \<^verbatim>\<open>+\<close> read as a number.\<close>

definition getProp :: "jsval \<Rightarrow> string \<Rightarrow> jsval" where
  "getProp v k =
     (case v of Obj kvs \<Rightarrow> (case map_of kvs k of None \<Rightarrow> Undefined | Some x \<Rightarrow> x)
      | _ \<Rightarrow> Undefined)"

definition numberOf :: "jsval \<Rightarrow> jsnum" where
  "numberOf v = (case v of Num n \<Rightarrow> n | _ \<Rightarrow> NaN)"

definition ofString :: "string option \<Rightarrow> jsval" where
  "ofString a = (case a of None \<Rightarrow> Undefined | Some s \<Rightarrow> Str s)"

definition hexDigit :: "nat \<Rightarrow> char" where
  "hexDigit d = ''0123456789abcdef'' ! (d mod 16)"

definition quoteChar :: "char \<Rightarrow> string" where
  "quoteChar c =
     (if c = CHR 0x08 then [CHR 0x5C, CHR ''b'']
      else if c = CHR 0x09 then [CHR 0x5C, CHR ''t'']
      else if c = CHR 0x0A then [CHR 0x5C, CHR ''n'']
      else if c = CHR 0x0C then [CHR 0x5C, CHR ''f'']
      else if c = CHR 0x0D then [CHR 0x5C, CHR ''r'']
      else if c = CHR 0x22 then [CHR 0x5C, CHR 0x22]
      else if c = CHR 0x5C then [CHR 0x5C, CHR 0x5C]
      else if (of_char c :: nat) < 32 then
        [CHR 0x5C, CHR ''u'', CHR ''0'', CHR ''0'',
         hexDigit (of_char c div 16), hexDigit (of_char c)]
      else [c])"

text \<open>A text between double quotes.\<close>

definition quoted :: "string \<Rightarrow> string" where
  "quoted s = [CHR 0x22] @ s @ [CHR 0x22]"

definition QuoteJSONString :: "string \<Rightarrow> string" where
  "QuoteJSONString s = quoted (concat (map quoteChar s))"

fun joinWith :: "string \<Rightarrow> string list \<Rightarrow> string" where
  "joinWith sep [] = []"
| "joinWith sep [x] = x"
| "joinWith sep (x # y # ys) = x @ sep @ joinWith sep (y # ys)"

text \<open>
  \<open>SerializeJSONProperty\<close> is \<open>None\<close> where the language yields \<^verbatim>\<open>undefined\<close>: an
  undefined property is left out of an object and is \<^verbatim>\<open>null\<close> in an array. A number
  that is not finite is \<^verbatim>\<open>null\<close>; the digits of a finite one are those of the
  binary64 value and come from the parameter \<open>digits\<close>.
\<close>

fun SerializeJSONProperty :: "(jsnum \<Rightarrow> string) \<Rightarrow> jsval \<Rightarrow> string option" where
  "SerializeJSONProperty digits Undefined = None"
| "SerializeJSONProperty digits Null = Some ''null''"
| "SerializeJSONProperty digits (Bool b) = Some (if b then ''true'' else ''false'')"
| "SerializeJSONProperty digits (Num n) =
     Some (case n of Fin r \<Rightarrow> digits n | _ \<Rightarrow> ''null'')"
| "SerializeJSONProperty digits (Str s) = Some (QuoteJSONString s)"
| "SerializeJSONProperty digits (Arr xs) =
     Some (''['' @
       joinWith '',''
         (map (\<lambda>x. case SerializeJSONProperty digits x of None \<Rightarrow> ''null'' | Some t \<Rightarrow> t) xs)
       @ '']'')"
| "SerializeJSONProperty digits (Obj kvs) =
     Some (''{'' @
       joinWith '',''
         (concat (map (\<lambda>(k, v). case SerializeJSONProperty digits v of
                                   None \<Rightarrow> []
                                 | Some t \<Rightarrow> [QuoteJSONString k @ '':'' @ t]) kvs))
       @ ''}'')"

subsection \<open>\<^verbatim>\<open>Date.prototype.toISOString\<close>\<close>

text \<open>
  A time value is the number of milliseconds since the epoch, an integer. The date is read
  in the proleptic Gregorian calendar, in UTC. Years from 0 to 9999 print with four digits,
  other years with a sign and six digits. A time value beyond 8.64e15 milliseconds on either
  side of the epoch is no date, and \<^verbatim>\<open>toISOString\<close> throws a \<^verbatim>\<open>RangeError\<close> for
  it; the clock never yields one (nor one within 15 minutes of that bound), and the model
  leaves that case out.
\<close>

text \<open>The last \<open>n\<close> decimal digits of \<open>k\<close>, which is not negative.\<close>

fun pad :: "nat \<Rightarrow> int \<Rightarrow> string" where
  "pad 0 k = []"
| "pad (Suc n) k = pad n (k div 10) @ [hexDigit (nat (k mod 10))]"

definition civil :: "int \<Rightarrow> int \<times> int \<times> int" where
  "civil days =
     (let z = days + 719468;
          era = z div 146097;
          doe = z - era * 146097;
          yoe = (doe - doe div 1460 + doe div 36524 - doe div 146096) div 365;
          doy = doe - (365 * yoe + yoe div 4 - yoe div 100);
          mp = (5 * doy + 2) div 153;
          d = doy - (153 * mp + 2) div 5 + 1;
          m = (if mp < 10 then mp + 3 else mp - 9);
          y = yoe + era * 400 + (if m \<le> 2 then 1 else 0)
      in (y, m, d))"

definition toISOString :: "int \<Rightarrow> string" where
  "toISOString t =
     (let (y, m, d) = civil (t div 86400000);
          ms = t mod 1000;
          s = (t div 1000) mod 60;
          mi = (t div 60000) mod 60;
          hh = (t div 3600000) mod 24;
          year = (if 0 \<le> y \<and> y \<le> 9999 then pad 4 y
                  else (if y < 0 then ''-'' else ''+'') @ pad 6 \<bar>y\<bar>)
      in year @ ''-'' @ pad 2 m @ ''-'' @ pad 2 d @ ''T'' @ pad 2 hh @ '':'' @ pad 2 mi
           @ '':'' @ pad 2 s @ ''.'' @ pad 3 ms @ ''Z'')"

subsection \<open>The host: runtime, file system, clock and store client\<close>

text \<open>
  What the script throws is an \<^verbatim>\<open>Error\<close> with a message, or (only out of the runtime
  or the store client) some other value, kept as the text \<^verbatim>\<open>console.error\<close> prints.
\<close>

datatype thrown = Error string | NonError string

text \<open>
  Everything the script obtains from outside itself. A store path is the list of the
  collection and document names that lead to it. The digits of a binary64 value
  (\<open>toFixed\<close>, \<open>numberToString\<close>) are taken from the host, since the model of numbers
  does not fix the rounding.
  \<^item> \<open>connect\<close> stands for \<^verbatim>\<open>JSON.parse\<close> of the credential text, \<^verbatim>\<open>cert\<close>,
    \<^verbatim>\<open>initializeApp\<close> and \<^verbatim>\<open>getFirestore\<close>: the value it throws, if any.
  \<^item> \<open>validDocId\<close> tells the document names that \<^verbatim>\<open>collection(..).doc(name)\<close>
    accepts, and \<open>docRefError\<close> is what it throws for a path it refuses; \<open>docId\<close> is the
    \<^verbatim>\<open>id\<close> of a reference; \<open>autoId\<close> is the \<^verbatim>\<open>id\<close> of
    \<^verbatim>\<open>collection('sessions').doc()\<close>.
  \<^item> \<open>setDoc\<close> is the outcome of \<^verbatim>\<open>await ref.set(doc, { merge: true })\<close>.
  \<^item> \<open>random36 k\<close> is the \<open>k\<close>-th \<^verbatim>\<open>Math.random().toString(36)\<close>; \<open>clock k\<close> is the
    time value of the \<open>k\<close>-th \<^verbatim>\<open>new Date()\<close>.
\<close>

record host =
  toFixed :: "jsnum \<Rightarrow> nat \<Rightarrow> string"
  numberToString :: "jsnum \<Rightarrow> string"
  cwd :: string
  envServiceAccountPath :: "string option"
  repoRoot :: string
  resolve :: "string \<Rightarrow> string \<Rightarrow> string"
  existsSync :: "string \<Rightarrow> bool"
  readdirSync :: "string \<Rightarrow> thrown + string list"
  readFileSync :: "string \<Rightarrow> thrown + string"
  connect :: "string \<Rightarrow> thrown option"
  validDocId :: "string \<Rightarrow> bool"
  docRefError :: "string list \<Rightarrow> thrown"
  docId :: "string list \<Rightarrow> string"
  autoId :: string
  setDoc :: "string list \<Rightarrow> document \<Rightarrow> thrown option"
  hasRandomUUID :: bool
  randomUUID :: string
  random36 :: "nat \<Rightarrow> string"
  clock :: "nat \<Rightarrow> int"

definition JSON_stringify :: "host \<Rightarrow> jsval \<Rightarrow> string option" where
  "JSON_stringify h v = SerializeJSONProperty (numberToString h) v"

subsection \<open>Options\<close>

text \<open>
  \<^verbatim>\<open>parseArgs\<close> stores \<^verbatim>\<open>argv[index + 1]\<close>, which is \<^verbatim>\<open>undefined\<close> when the flag
  is the last argument, so the string options may be undefined at run time; the code
  itself reads \<^verbatim>\<open>className\<close>, \<^verbatim>\<open>subject\<close> and \<^verbatim>\<open>location\<close> through \<^verbatim>\<open>??\<close>.
\<close>

record SeedOptions =
  teacherId :: string
  teacherName :: "string option"
  className :: "string option"
  subject :: "string option"
  skipSession :: bool
  sessionId :: "string option"
  location :: "string option"

definition emDash :: string where
  "emDash = [CHR 0xE2, CHR 0x80, CHR 0x94]"

definition DEFAULTS :: SeedOptions where
  "DEFAULTS =
     \<lparr> teacherId = [],
       teacherName = Some ''Demo Teacher'',
       className = Some (''Grade 10 '' @ emDash @ '' Section A''),
       subject = Some ''Mathematics'',
       skipSession = False,
       sessionId = None,
       location = Some ''0,0'' \<rparr>"

subsection \<open>Document builders\<close>

definition stringified :: "string option \<Rightarrow> jsval" where
  "stringified t = (case t of None \<Rightarrow> Undefined | Some x \<Rightarrow> Str x)"

text \<open>\<open>now\<close> is the time value of the \<^verbatim>\<open>new Date()\<close> of the call.\<close>

definition buildSessionDocuments ::
  "host \<Rightarrow> SeedOptions \<Rightarrow> string \<Rightarrow> string \<Rightarrow> int \<Rightarrow> thrown + (document \<times> document)" where
  "buildSessionDocuments h options sessionId' sessionToken now =
     (let parts = str_split (CHR '','')
                    (nullish (location options) (nullish (location DEFAULTS) ''0,0''));
          latitudeRaw = element parts 0;
          longitudeRaw = element parts 1;
          latitude = Number (nullish latitudeRaw ''0'');
          longitude = Number (nullish longitudeRaw ''0'')
      in if isNaN latitude \<or> isNaN longitude then
           Inl (Error (''Invalid --location value: '' @ templ (location options)
                  @ ''. Expected format is '' @ quoted ''lat,lng''))
         else
           (let scheduledFor = now + 15 * 60 * 1000;
                locationCoordinates =
                  Obj [(''latitude'', Num latitude),
                       (''longitude'', Num longitude),
                       (''accuracy'', Null),
                       (''capturedAt'', Str (toISOString now))];
                qrData = JSON_stringify h
                  (Obj [(''sessionId'', Str sessionId'),
                        (''sessionToken'', Str sessionToken),
                        (''className'', ofString (className options)),
                        (''subject'', ofString (subject options)),
                        (''scheduledFor'', Str (toISOString scheduledFor)),
                        (''teacherId'', Str (teacherId options)),
                        (''durationMinutes'', N 45),
                        (''locationCoordinates'', locationCoordinates)]);
                sessionDoc =
                  [(''sessionId'', Val (Str sessionId')),
                   (''className'', Val (ofString (className options))),
                   (''subject'', Val (ofString (subject options))),
                   (''scheduledFor'', Val (Str (toISOString scheduledFor))),
                   (''location'',
                      Val (Str (toFixed h latitude 5 @ '', '' @ toFixed h longitude 5))),
                   (''locationCoordinates'', Val locationCoordinates),
                   (''durationMinutes'', Val (N 45)),
                   (''status'', Val (Str ''scheduled'')),
                   (''expectedAttendance'', Val (N 30)),
                   (''attendees'', Val (Arr [])),
                   (''sessionToken'', Val (Str sessionToken)),
                   (''qrCodeData'', Val (stringified qrData)),
                   (''createdAt'', ServerTimestamp)];
                publicDoc =
                  [(''sessionId'', Val (Str sessionId')),
                   (''sessionToken'', Val (Str sessionToken)),
                   (''sessionPath'',
                      Val (Str (''teachers/'' @ teacherId options @ ''/sessions/'' @ sessionId'))),
                   (''teacherId'', Val (Str (teacherId options))),
                   (''className'', Val (ofString (className options))),
                   (''subject'', Val (ofString (subject options))),
                   (''scheduledFor'', Val (Str (toISOString scheduledFor))),
                   (''durationMinutes'', Val (N 45)),
                   (''expectedAttendance'', Val (N 30)),
                   (''status'', Val (Str ''scheduled'')),
                   (''location'',
                      Val (Str (toFixed h latitude 5 @ '', '' @ toFixed h longitude 5))),
                   (''locationCoordinates'', Val locationCoordinates),
                   (''createdAt'', ServerTimestamp)]
            in Inr (sessionDoc, publicDoc)))"

definition buildAnalyticsPayload :: "SeedOptions \<Rightarrow> int \<Rightarrow> document" where
  "buildAnalyticsPayload options now =
     (let baseClassName = ofString (case className options of
                                      None \<Rightarrow> className DEFAULTS | Some x \<Rightarrow> Some x);
          currentIso = Str (toISOString now);
          classes =
            [Obj [(''classId'', Str ''class-1''),
                  (''className'', baseClassName),
                  (''subject'', ofString (case subject options of
                                            None \<Rightarrow> subject DEFAULTS | Some x \<Rightarrow> Some x)),
                  (''averageAttendanceRate'', N 84),
                  (''totalStudents'', N 32),
                  (''dropoutRiskCount'', N 3),
                  (''failingStudentsCount'', N 4),
                  (''attendanceTrend'', Arr [N 88, N 86, N 85, N 82, N 84, N 81, N 79]),
                  (''updatedAt'', currentIso)],
             Obj [(''classId'', Str ''class-2''),
                  (''className'', Str (''Grade 12 '' @ emDash @ '' Section B'')),
                  (''subject'', Str ''Physics''),
                  (''averageAttendanceRate'', N 76),
                  (''totalStudents'', N 28),
                  (''dropoutRiskCount'', N 2),
                  (''failingStudentsCount'', N 3),
                  (''attendanceTrend'', Arr [N 82, N 80, N 78, N 77, N 76, N 74, N 73]),
                  (''updatedAt'', currentIso)],
             Obj [(''classId'', Str ''class-3''),
                  (''className'', Str (''Grade 11 '' @ emDash @ '' Section C'')),
                  (''subject'', Str ''Computer Science''),
                  (''averageAttendanceRate'', N 91),
                  (''totalStudents'', N 30),
                  (''dropoutRiskCount'', N 1),
                  (''failingStudentsCount'', N 2),
                  (''attendanceTrend'', Arr [N 93, N 92, N 91, N 90, N 92, N 91, N 91]),
                  (''updatedAt'', currentIso)]];
          dropoutRiskStudents =
            [Obj [(''studentId'', Str ''stu-1001''),
                  (''name'', Str ''Ananya Patel''),
                  (''className'', baseClassName),
                  (''attendanceRate'', N 62),
                  (''absences'', N 14),
                  (''riskLevel'', Str ''high''),
                  (''notes'', Str ''Missed the last three consecutive sessions.'')],
             Obj [(''studentId'', Str ''stu-1023''),
                  (''name'', Str ''Rahul Iyer''),
                  (''className'', Str (''Grade 12 '' @ emDash @ '' Section B'')),
                  (''attendanceRate'', N 68),
                  (''absences'', N 11),
                  (''riskLevel'', Str ''medium''),
                  (''notes'', Str ''Frequently absent on laboratory days.'')],
             Obj [(''studentId'', Str ''stu-1098''),
                  (''name'', Str ''Priya Sharma''),
                  (''className'', Str (''Grade 11 '' @ emDash @ '' Section C'')),
                  (''attendanceRate'', N 71),
                  (''absences'', N 9),
                  (''riskLevel'', Str ''medium''),
                  (''notes'', Str ''Needs follow-up from homeroom teacher.'')]];
          failingStudents =
            [Obj [(''studentId'', Str ''stu-1015''),
                  (''name'', Str ''Karan Desai''),
                  (''className'', baseClassName),
                  (''averageGrade'', N 54),
                  (''missingAssignments'', N 5),
                  (''status'', Str ''critical'')],
             Obj [(''studentId'', Str ''stu-1067''),
                  (''name'', Str ''Meera Sood''),
                  (''className'', Str (''Grade 12 '' @ emDash @ '' Section B'')),
                  (''averageGrade'', N 58),
                  (''missingAssignments'', N 3),
                  (''status'', Str ''warning'')],
             Obj [(''studentId'', Str ''stu-1102''),
                  (''name'', Str ''Arjun Malhotra''),
                  (''className'', Str (''Grade 11 '' @ emDash @ '' Section C'')),
                  (''averageGrade'', N 59),
                  (''missingAssignments'', N 4),
                  (''status'', Str ''warning'')]];
          averageAttendanceRate =
            Math_round
              (num_div_length
                 (foldl (\<lambda>sum entry.
                           num_add sum (numberOf (getProp entry ''averageAttendanceRate'')))
                    (Fin 0) classes)
                 (length classes))
      in [(''teacherId'', Val (Str (teacherId options))),
          (''updatedAt'', ServerTimestamp),
          (''averageAttendanceRate'', Val (Num averageAttendanceRate)),
          (''dropoutRiskCount'', Val (N (of_nat (length dropoutRiskStudents)))),
          (''failingStudentsCount'', Val (N (of_nat (length failingStudents)))),
          (''reportingPeriod'', Val currentIso),
          (''classes'', Val (Arr classes)),
          (''dropoutRiskStudents'', Val (Arr dropoutRiskStudents)),
          (''failingStudents'', Val (Arr failingStudents))])"

subsection \<open>Effects\<close>

text \<open>
  What a run does to the outside, in order: lines on the console, the read of the
  credential file, and the writes handed to the store (each one a merge-set of a document
  at a path).
\<close>

datatype event =
    Log string
  | Warn string
  | ErrorLog string
  | ReadFile string
  | SetDoc "string list" document

text \<open>A computation ends by returning, by throwing, or by \<^verbatim>\<open>process.exit\<close>.\<close>

datatype 'a outcome = Returned 'a | Thrown thrown | Exited nat

type_synonym 'a effect = "event list \<times> 'a outcome"

definition andThen :: "'a effect \<Rightarrow> ('a \<Rightarrow> 'b effect) \<Rightarrow> 'b effect" where
  "andThen m f =
     (case snd m of
        Returned x \<Rightarrow> (fst m @ fst (f x), snd (f x))
      | Thrown e \<Rightarrow> (fst m, Thrown e)
      | Exited n \<Rightarrow> (fst m, Exited n))"

definition emit :: "event \<Rightarrow> unit effect" where
  "emit e = ([e], Returned ())"

definition truthy :: "string option \<Rightarrow> bool" where
  "truthy a = (case a of None \<Rightarrow> False | Some s \<Rightarrow> s \<noteq> [])"

subsection \<open>\<^verbatim>\<open>generateSecureId\<close>\<close>

definition generateSecureId :: "host \<Rightarrow> string" where
  "generateSecureId h =
     (if hasRandomUUID h then randomUUID h
      else
        (let segment = (\<lambda>k. slice 2 10 (random36 h k))
         in segment 0 @ ''-'' @ segment 1 @ ''-'' @ segment 2 @ ''-'' @ segment 3))"

subsection \<open>\<^verbatim>\<open>parseArgs\<close>, \<^verbatim>\<open>printUsage\<close> and \<^verbatim>\<open>coerceOptions\<close>\<close>

text \<open>
  A property of \<^verbatim>\<open>ParsedArgs\<close> is absent (\<open>None\<close>), or present with a value that
  may be \<^verbatim>\<open>undefined\<close> (\<open>Some None\<close>): spreading \<^verbatim>\<open>parsed\<close> over the defaults
  overwrites a default with a present \<^verbatim>\<open>undefined\<close>.
\<close>

record ParsedArgs =
  parsed_teacherId :: "string option option"
  parsed_teacherName :: "string option option"
  parsed_className :: "string option option"
  parsed_subject :: "string option option"
  parsed_skipSession :: "bool option"
  parsed_sessionId :: "string option option"
  parsed_location :: "string option option"
  parsed_help :: "bool option"
  parsed_serviceAccountPath :: "string option option"

definition emptyParsed :: ParsedArgs where
  "emptyParsed =
     \<lparr> parsed_teacherId = None, parsed_teacherName = None, parsed_className = None,
       parsed_subject = None, parsed_skipSession = None, parsed_sessionId = None,
       parsed_location = None, parsed_help = None, parsed_serviceAccountPath = None \<rparr>"

text \<open>
  The \<^verbatim>\<open>switch\<close> on the key: the new record, whether the next argument was consumed
  (\<^verbatim>\<open>index += 1\<close>), and the warning for an unknown flag.
\<close>

definition parseFlag ::
  "ParsedArgs \<Rightarrow> string \<Rightarrow> string option \<Rightarrow> ParsedArgs \<times> bool \<times> event list" where
  "parseFlag parsed key next =
     (if key = ''teacher'' then (parsed\<lparr>parsed_teacherId := Some next\<rparr>, True, [])
      else if key = ''name'' then (parsed\<lparr>parsed_teacherName := Some next\<rparr>, True, [])
      else if key = ''class'' then (parsed\<lparr>parsed_className := Some next\<rparr>, True, [])
      else if key = ''subject'' then (parsed\<lparr>parsed_subject := Some next\<rparr>, True, [])
      else if key = ''session-id'' then (parsed\<lparr>parsed_sessionId := Some next\<rparr>, True, [])
      else if key = ''location'' then (parsed\<lparr>parsed_location := Some next\<rparr>, True, [])
      else if key = ''service-account''
        then (parsed\<lparr>parsed_serviceAccountPath := Some next\<rparr>, True, [])
      else if key = ''skip-session''
        then (parsed\<lparr>parsed_skipSession := Some True\<rparr>, False, [])
      else if key = ''help'' \<or> key = ''h'' then (parsed\<lparr>parsed_help := Some True\<rparr>, False, [])
      else (parsed, False, [Warn (''Ignoring unknown flag --'' @ key)]))"

fun parseArgs_from :: "ParsedArgs \<Rightarrow> string list \<Rightarrow> ParsedArgs \<times> event list" where
  "parseArgs_from parsed [] = (parsed, [])"
| "parseArgs_from parsed (current # rest) =
     (if \<not> startsWith current ''--'' then parseArgs_from parsed rest
      else
        (let step = parseFlag parsed (slice_from 2 current) (element rest 0);
             more = parseArgs_from (fst step)
                      (if fst (snd step) then drop 1 rest else rest)
         in (fst more, snd (snd step) @ snd more)))"

definition parseArgs :: "string list \<Rightarrow> ParsedArgs \<times> event list" where
  "parseArgs argv = parseArgs_from emptyParsed argv"

definition usage :: string where
  "usage = concat (map (\<lambda>line. line @ [CHR 0x0A])
     [''Create the core Firestore structure for smart-attender.'',
      '''',
      ''Usage:'',
      ''  bun scripts/seed-firestore.ts --teacher <firebase-uid> [options]'',
      '''',
      ''Options:'',
      ''  --teacher <id>           Firebase Auth UID for the teacher document (required)'',
      ''  --name <full name>       Teacher display name (default: ''
         @ quoted (templ (teacherName DEFAULTS)) @ '')'',
      ''  --class <label>          Class name for the sample session (default: ''
         @ quoted (templ (className DEFAULTS)) @ '')'',
      ''  --subject <label>        Subject for the sample session (default: ''
         @ quoted (templ (subject DEFAULTS)) @ '')'',
      ''  --location <lat,lng>     Comma-separated coordinates stored on the sample session (default: ''
         @ templ (location DEFAULTS) @ '')'',
      ''  --session-id <id>        Explicit ID for the sample session document (default: auto-generated)'',
      ''  --skip-session           Only create the teacher document; do not seed a session'',
      ''  --service-account <path> Path to service account JSON (defaults to FIREBASE_SERVICE_ACCOUNT_PATH or repo lookup)'',
      ''  --help                   Show this message''])"

definition printUsage :: "unit effect" where
  "printUsage = emit (Log usage)"

text \<open>\<^verbatim>\<open>parsed.key\<close>: an absent property reads as \<^verbatim>\<open>undefined\<close>.\<close>

definition readProp :: "'a option option \<Rightarrow> 'a option" where
  "readProp p = (case p of None \<Rightarrow> None | Some v \<Rightarrow> v)"

text \<open>One property of \<^verbatim>\<open>{ ...DEFAULTS, ...parsed }\<close>.\<close>

definition spread :: "'a \<Rightarrow> 'a option \<Rightarrow> 'a" where
  "spread dflt p = (case p of None \<Rightarrow> dflt | Some v \<Rightarrow> v)"

definition coerceOptions :: "ParsedArgs \<Rightarrow> SeedOptions effect" where
  "coerceOptions parsed =
     (if parsed_help parsed = Some True then
        andThen printUsage (\<lambda>_. ([], Exited 0))
      else if \<not> truthy (readProp (parsed_teacherId parsed)) then
        andThen printUsage
          (\<lambda>_. ([], Thrown (Error ''Missing required flag: --teacher <firebase-uid>'')))
      else
        ([], Returned
          \<lparr> teacherId = nullish (readProp (parsed_teacherId parsed)) [],
            teacherName = spread (teacherName DEFAULTS) (parsed_teacherName parsed),
            className = spread (className DEFAULTS) (parsed_className parsed),
            subject = spread (subject DEFAULTS) (parsed_subject parsed),
            skipSession = spread (skipSession DEFAULTS) (parsed_skipSession parsed),
            sessionId = spread (sessionId DEFAULTS) (parsed_sessionId parsed),
            location = spread (location DEFAULTS) (parsed_location parsed) \<rparr>))"

subsection \<open>\<^verbatim>\<open>detectServiceAccount\<close>\<close>

definition isCandidate :: "string \<Rightarrow> bool" where
  "isCandidate file = (str_includes file ''firebase-adminsdk'' \<and> endsWith file ''.json'')"

definition detectServiceAccount :: "host \<Rightarrow> string option \<Rightarrow> string effect" where
  "detectServiceAccount h explicitPath =
     (if truthy explicitPath then
        (let resolved = resolve h (cwd h) (nullish explicitPath [])
         in if \<not> existsSync h resolved
            then ([], Thrown (Error (''Service account file not found at '' @ resolved)))
            else ([], Returned resolved))
      else if truthy (envServiceAccountPath h) then
        (let resolved = resolve h (cwd h) (nullish (envServiceAccountPath h) [])
         in if \<not> existsSync h resolved
            then ([], Thrown (Error
                   (''Service account file from FIREBASE_SERVICE_ACCOUNT_PATH not found at ''
                    @ resolved)))
            else ([], Returned resolved))
      else
        (case readdirSync h (repoRoot h) of
           Inl e \<Rightarrow> ([], Thrown e)
         | Inr files \<Rightarrow>
             (let candidates = filter isCandidate files
              in if length candidates = 0
                 then ([], Thrown (Error (''No service account JSON found. Set ''
                        @ ''FIREBASE_SERVICE_ACCOUNT_PATH or pass --service-account <path>.'')))
                 else
                   (let chosen = resolve h (repoRoot h) (candidates ! 0)
                    in ([Log (''Using service account file: '' @ chosen)], Returned chosen)))))"

subsection \<open>\<^verbatim>\<open>seed\<close> and \<^verbatim>\<open>main\<close>\<close>

text \<open>
  \<^verbatim>\<open>collection(..).doc(name)\<close>: the client refuses some document names (the empty
  one, for instance); whether it does depends on the name only.
\<close>

definition doc :: "host \<Rightarrow> string list \<Rightarrow> string \<Rightarrow> (string list) effect" where
  "doc h collection name =
     (if validDocId h name then ([], Returned (collection @ [name]))
      else ([], Thrown (docRefError h (collection @ [name]))))"

text \<open>\<^verbatim>\<open>await ref.set(data, { merge: true })\<close>: the write is issued, then acknowledged or not.\<close>

definition set_merge :: "host \<Rightarrow> string list \<Rightarrow> document \<Rightarrow> unit effect" where
  "set_merge h ref data =
     ([SetDoc ref data],
      case setDoc h ref data of None \<Rightarrow> Returned () | Some e \<Rightarrow> Thrown e)"

definition loadServiceAccount :: "host \<Rightarrow> string \<Rightarrow> unit effect" where
  "loadServiceAccount h serviceAccountPath =
     andThen
       ([ReadFile serviceAccountPath],
        case readFileSync h serviceAccountPath of Inl e \<Rightarrow> Thrown e | Inr text \<Rightarrow> Returned text)
       (\<lambda>text. case connect h text of None \<Rightarrow> ([], Returned ()) | Some e \<Rightarrow> ([], Thrown e))"

definition seedSession :: "host \<Rightarrow> SeedOptions \<Rightarrow> string list \<Rightarrow> unit effect" where
  "seedSession h options teacherRef =
     (let sessionId' = nullish (sessionId options) (autoId h);
          sessionToken = removeHyphens (generateSecureId h)
      in andThen (doc h (teacherRef @ [''sessions'']) sessionId') (\<lambda>sessionRef.
         andThen
           (case buildSessionDocuments h options sessionId' sessionToken (clock h 0) of
              Inl e \<Rightarrow> ([], Thrown e)
            | Inr docs \<Rightarrow> ([], Returned docs)) (\<lambda>docs.
         andThen (emit (Log (''Seeding session document at teachers/'' @ teacherId options
                    @ ''/sessions/'' @ docId h sessionRef @ ''...''))) (\<lambda>_.
         andThen (set_merge h sessionRef (fst docs)) (\<lambda>_.
         andThen (emit (Log (''Publishing public session token at publicSessions/''
                    @ sessionToken @ ''...''))) (\<lambda>_.
         andThen (doc h [''publicSessions''] sessionToken) (\<lambda>publicRef.
         set_merge h publicRef (snd docs))))))))"

definition seed :: "host \<Rightarrow> SeedOptions \<Rightarrow> string \<Rightarrow> unit effect" where
  "seed h options serviceAccountPath =
     andThen (loadServiceAccount h serviceAccountPath) (\<lambda>_.
     andThen (doc h [''teachers''] (teacherId options)) (\<lambda>teacherRef.
     andThen (emit (Log ([CHR 0x0A] @ ''Creating teacher document for '' @ teacherId options
                @ ''...''))) (\<lambda>_.
     andThen (set_merge h teacherRef
                [(''displayName'', Val (ofString (teacherName options))),
                 (''createdAt'', ServerTimestamp),
                 (''updatedAt'', ServerTimestamp)]) (\<lambda>_.
     andThen (if \<not> skipSession options then seedSession h options teacherRef
              else ([], Returned ())) (\<lambda>_.
     andThen (emit (Log (''Seeding analytics snapshot for teacher '' @ teacherId options
                @ ''...''))) (\<lambda>_.
     andThen (doc h [''teacherAnalytics''] (teacherId options)) (\<lambda>analyticsRef.
     andThen (set_merge h analyticsRef
                (buildAnalyticsPayload options (clock h (if skipSession options then 0 else 1))))
       (\<lambda>_.
     emit (Log ([CHR 0x0A] @ ''Firestore seed completed successfully.''))))))))))"

definition message :: "thrown \<Rightarrow> string" where
  "message e = (case e of Error m \<Rightarrow> m | NonError text \<Rightarrow> text)"

text \<open>
  \<open>main h argv\<close> is the run on the arguments \<open>argv\<close> (\<^verbatim>\<open>process.argv.slice(2)\<close>): its
  trace and the exit code of the process.
\<close>

definition main :: "host \<Rightarrow> string list \<Rightarrow> event list \<times> nat" where
  "main h argv =
     (let run =
        andThen (snd (parseArgs argv), Returned (fst (parseArgs argv))) (\<lambda>parsed.
        andThen (coerceOptions parsed) (\<lambda>options.
        andThen (detectServiceAccount h (readProp (parsed_serviceAccountPath parsed)))
          (\<lambda>serviceAccountPath.
        seed h options serviceAccountPath)))
      in case snd run of
           Returned _ \<Rightarrow> (fst run, 0)
         | Exited n \<Rightarrow> (fst run, n)
         | Thrown e \<Rightarrow>
             (fst run @ [ErrorLog ([CHR 0x0A] @ ''Failed to seed Firestore:''),
                         ErrorLog (message e)], 1))"

subsection \<open>Reading a trace\<close>

fun writes :: "event list \<Rightarrow> (string list \<times> document) list" where
  "writes [] = []"
| "writes (SetDoc ref data # es) = (ref, data) # writes es"
| "writes (_ # es) = writes es"

text \<open>
  The script writes to \<^verbatim>\<open>teachers/{id}\<close>, \<^verbatim>\<open>teachers/{id}/sessions/{id}\<close>,
  \<^verbatim>\<open>publicSessions/{token}\<close> and \<^verbatim>\<open>teacherAnalytics/{id}\<close>; the session and
  the public-session documents are told apart from the others by their paths.
\<close>

definition isSessionPath :: "string list \<Rightarrow> bool" where
  "isSessionPath ref = (length ref = 4 \<and> ref ! 0 = ''teachers'' \<and> ref ! 2 = ''sessions'')"

definition isPublicSessionPath :: "string list \<Rightarrow> bool" where
  "isPublicSessionPath ref = (length ref = 2 \<and> ref ! 0 = ''publicSessions'')"

definition isThrown :: "'a effect \<Rightarrow> bool" where
  "isThrown m = (case snd m of Thrown _ \<Rightarrow> True | _ \<Rightarrow> False)"

text \<open>The session document of a result of \<^verbatim>\<open>buildSessionDocuments\<close>, and its QR text.\<close>

definition sessionDocOf :: "thrown + (document \<times> document) \<Rightarrow> document" where
  "sessionDocOf r = (case r of Inl _ \<Rightarrow> [] | Inr docs \<Rightarrow> fst docs)"

definition qrText :: "document \<Rightarrow> string" where
  "qrText d = (case map_of d ''qrCodeData'' of Some (Val (Str text)) \<Rightarrow> text | _ \<Rightarrow> [])"



subsection \<open>An example host\<close>

text \<open>
  A host for concrete runs: POSIX paths without \<^verbatim>\<open>.\<close> and \<^verbatim>\<open>..\<close> segments, a
  repository root that holds one service-account file, a store that accepts every write,
  and numbers whose binary64 digits are those of the exact decimal value (true of the
  coordinates used below).
\<close>

function showNat :: "nat \<Rightarrow> string" where
  "showNat n = (if n < 10 then [hexDigit n] else showNat (n div 10) @ [hexDigit (n mod 10)])"
  by pat_completeness auto

termination showNat
  by (relation "measure (\<lambda>n. n)") auto

definition exampleToFixed :: "jsnum \<Rightarrow> nat \<Rightarrow> string" where
  "exampleToFixed x f =
     (case x of
        NaN \<Rightarrow> ''NaN''
      | PosInfinity \<Rightarrow> ''Infinity''
      | NegInfinity \<Rightarrow> ''-Infinity''
      | Fin r \<Rightarrow>
          (let n = \<lfloor>\<bar>r\<bar> * 10 ^ f + 1 / 2\<rfloor>
           in (if r < 0 then ''-'' else []) @ showNat (nat (n div 10 ^ f))
              @ (if f = 0 then [] else ''.'' @ pad f (n mod 10 ^ f))))"

definition exampleNumberToString :: "jsnum \<Rightarrow> string" where
  "exampleNumberToString x =
     (case x of
        NaN \<Rightarrow> ''NaN''
      | PosInfinity \<Rightarrow> ''Infinity''
      | NegInfinity \<Rightarrow> ''-Infinity''
      | Fin r \<Rightarrow>
          (let whole = nat \<lfloor>\<bar>r\<bar>\<rfloor>;
               frac = \<bar>r\<bar> - of_nat whole;
               places = (case find (\<lambda>k. frac * 10 ^ k = of_int \<lfloor>frac * 10 ^ k\<rfloor>) [0..<17] of
                           None \<Rightarrow> 17 | Some k \<Rightarrow> k)
           in (if r < 0 then ''-'' else []) @ showNat whole
              @ (if places = 0 then [] else ''.'' @ pad places \<lfloor>frac * 10 ^ places\<rfloor>)))"

definition exampleResolve :: "string \<Rightarrow> string \<Rightarrow> string" where
  "exampleResolve from to = (if startsWith to ''/'' then to else from @ ''/'' @ to)"

definition exampleFiles :: "string list" where
  "exampleFiles =
     [''/home/dev/code/demo-firebase-adminsdk-abc12.json'',
      ''/home/dev/code/frontend/key.json'']"

definition exampleHost :: host where
  "exampleHost =
     \<lparr> toFixed = exampleToFixed,
       numberToString = exampleNumberToString,
       cwd = ''/home/dev/code/frontend'',
       envServiceAccountPath = None,
       repoRoot = ''/home/dev/code'',
       resolve = exampleResolve,
       existsSync = (\<lambda>path. path \<in> set exampleFiles),
       readdirSync = (\<lambda>dir. if dir = ''/home/dev/code''
                             then Inr [''README.md'', ''demo-firebase-adminsdk-abc12.json'',
                                       ''frontend'']
                             else Inl (Error ''ENOENT'')),
       readFileSync = (\<lambda>path. if path \<in> set exampleFiles then Inr ''{}''
                               else Inl (Error ''ENOENT'')),
       connect = (\<lambda>text. None),
       validDocId = (\<lambda>name. name \<noteq> [] \<and> CHR ''/'' \<notin> set name),
       docRefError = (\<lambda>ref. Error ''Value for argument documentPath is not a valid resource path''),
       docId = last,
       autoId = ''Zq3vX8LmP0aKd5TnB7yR'',
       setDoc = (\<lambda>ref data. None),
       hasRandomUUID = True,
       randomUUID = ''123e4567-e89b-42d3-a456-426614174000'',
       random36 = (\<lambda>k. ''0.4fzyo82mvyr''),
       clock = (\<lambda>k. 1794000000000 + int k) \<rparr>"

text \<open>The options of \<^verbatim>\<open>--teacher abc123 --class "Grade 9A" --location "12.9,77.6"\<close>.\<close>

definition exampleOptions :: SeedOptions where
  "exampleOptions =
     DEFAULTS\<lparr> teacherId := ''abc123'', className := Some ''Grade 9A'',
               location := Some ''12.9,77.6'' \<rparr>"

text \<open>An event that reaches outside the process: the credential read or a store write.\<close>

definition outside :: "event \<Rightarrow> bool" where
  "outside e = (case e of ReadFile _ \<Rightarrow> True | SetDoc _ _ \<Rightarrow> True | _ \<Rightarrow> False)"




text \<open>
  The credential file of the example runs, a store that refuses the write of the teacher
  document, and the token of the example host: its UUID without the hyphens.
\<close>

definition exampleCredential :: string where
  "exampleCredential = ''/home/dev/code/frontend/key.json''"

definition refusingHost :: host where
  "refusingHost =
     exampleHost\<lparr> setDoc := (\<lambda>ref data. if ref = [''teachers'', ''abc123'']
                                        then Some (Error ''PERMISSION_DENIED'') else None) \<rparr>"


section \<open>Properties\<close>

subsection \<open>The example run of the builder\<close>

lemma example_components:
  "str_split (CHR '','') ''12.9,77.6'' = [''12.9'', ''77.6'']"
  by simp

lemma example_latitude: "Number ''12.9'' = Fin (129 / 10)"
  by code_simp

lemma example_longitude: "Number ''77.6'' = Fin (388 / 5)"
  by code_simp

lemma example_now: "toISOString 1794000000000 = ''2026-11-06T21:20:00.000Z''"
  by code_simp

lemma example_scheduledFor: "toISOString 1794000900000 = ''2026-11-06T21:35:00.000Z''"
  by code_simp

lemma example_digits:
  "exampleNumberToString (Fin (129 / 10)) = ''12.9''"
  "exampleNumberToString (Fin (388 / 5)) = ''77.6''"
  "exampleNumberToString (Fin 45) = ''45''"
  by code_simp+

lemma example_fixed:
  "exampleToFixed (Fin (129 / 10)) 5 = ''12.90000''"
  "exampleToFixed (Fin (388 / 5)) 5 = ''77.60000''"
  by code_simp+

lemma example_build:
  "\<exists>sd pd. buildSessionDocuments exampleHost exampleOptions ''S'' ''T'' 1794000000000
             = Inr (sd, pd)"
  by (simp add: buildSessionDocuments_def Let_def exampleOptions_def DEFAULTS_def nullish_def
      element_def example_components example_latitude example_longitude isNaN_def)

subsection \<open>Schedule, duration and expected attendance\<close>

text \<open>
  Claim C7. Whatever the options, the session id and the token, a session document that
  \<open>buildSessionDocuments\<close> returns has \<^verbatim>\<open>scheduledFor\<close> equal to the ISO text of the
  current time plus 15 minutes (\<open>15 * 60 * 1000\<close> milliseconds), \<^verbatim>\<open>durationMinutes\<close>
  equal to 45 and \<^verbatim>\<open>expectedAttendance\<close> equal to 30.
\<close>

theorem session_schedule_constants:
  assumes "buildSessionDocuments h options sid tok now = Inr (sd, pd)"
  shows "map_of sd ''scheduledFor'' = Some (Val (Str (toISOString (now + 15 * 60 * 1000))))
       \<and> map_of sd ''durationMinutes'' = Some (Val (N 45))
       \<and> map_of sd ''expectedAttendance'' = Some (Val (N 30))"
  using assms by (auto simp: buildSessionDocuments_def Let_def split: if_splits)

theorem session_schedule_constants_witness:
  "\<exists>sd pd. buildSessionDocuments exampleHost exampleOptions ''S'' ''T'' 1794000000000
             = Inr (sd, pd)
     \<and> map_of sd ''scheduledFor'' = Some (Val (Str ''2026-11-06T21:35:00.000Z''))
     \<and> map_of sd ''durationMinutes'' = Some (Val (N 45))
     \<and> map_of sd ''expectedAttendance'' = Some (Val (N 30))"
proof -
  obtain sd pd where
    b: "buildSessionDocuments exampleHost exampleOptions ''S'' ''T'' 1794000000000 = Inr (sd, pd)"
    using example_build by blast
  from session_schedule_constants [OF b] b show ?thesis
    by (simp add: example_scheduledFor)
qed

subsection \<open>Location parsing\<close>

text \<open>
  Claim C1. For a location string whose first two comma-separated components are \<open>a\<close>
  and \<open>b\<close>: when \<^verbatim>\<open>Number\<close> reads both as numbers, \<open>buildSessionDocuments\<close> returns
  documents whose \<^verbatim>\<open>locationCoordinates\<close> have \<^verbatim>\<open>latitude\<close> \<open>Number a\<close> and
  \<^verbatim>\<open>longitude\<close> \<open>Number b\<close>; when one of them is not a number, it throws the error
  \<^verbatim>\<open>Invalid --location value: ... Expected format is "lat,lng"\<close> and returns no
  document.
\<close>

theorem location_parsing:
  assumes "location options = Some loc"
      and "str_split (CHR '','') loc = a # b # rest"
  shows "(\<not> isNaN (Number a) \<and> \<not> isNaN (Number b) \<longrightarrow>
            (\<exists>sd pd. buildSessionDocuments h options sid tok now = Inr (sd, pd)
               \<and> map_of sd ''locationCoordinates'' =
                   Some (Val (Obj [(''latitude'', Num (Number a)),
                                   (''longitude'', Num (Number b)),
                                   (''accuracy'', Null),
                                   (''capturedAt'', Str (toISOString now))]))
               \<and> map_of pd ''locationCoordinates'' = map_of sd ''locationCoordinates''))
       \<and> (isNaN (Number a) \<or> isNaN (Number b) \<longrightarrow>
            buildSessionDocuments h options sid tok now =
              Inl (Error (''Invalid --location value: '' @ loc @ ''. Expected format is ''
                          @ quoted ''lat,lng'')))"
  using assms
  by (simp add: buildSessionDocuments_def Let_def nullish_def element_def templ_def)

lemma bad_components:
  "str_split (CHR '','') ''12.9,north'' = [''12.9'', ''north'']"
  by simp

lemma bad_longitude: "Number ''north'' = NaN"
  by code_simp

theorem location_parsing_witness:
  "(\<exists>sd pd. buildSessionDocuments exampleHost exampleOptions ''S'' ''T'' 1794000000000
              = Inr (sd, pd)
      \<and> map_of sd ''locationCoordinates'' =
          Some (Val (Obj [(''latitude'', N (129 / 10)), (''longitude'', N (388 / 5)),
                          (''accuracy'', Null),
                          (''capturedAt'', Str ''2026-11-06T21:20:00.000Z'')]))
      \<and> map_of pd ''locationCoordinates'' = map_of sd ''locationCoordinates'')
   \<and> buildSessionDocuments exampleHost (exampleOptions\<lparr>location := Some ''12.9,north''\<rparr>)
        ''S'' ''T'' 1794000000000 =
       Inl (Error (''Invalid --location value: 12.9,north. Expected format is ''
                   @ quoted ''lat,lng''))"
proof -
  have loc: "location exampleOptions = Some ''12.9,77.6''"
    by (simp add: exampleOptions_def)
  have good: "\<not> isNaN (Number ''12.9'') \<and> \<not> isNaN (Number ''77.6'')"
    by (simp add: isNaN_def example_latitude example_longitude)
  have bad: "isNaN (Number ''12.9'') \<or> isNaN (Number ''north'')"
    by (simp add: isNaN_def bad_longitude)
  have loc': "location (exampleOptions\<lparr>location := Some ''12.9,north''\<rparr>) = Some ''12.9,north''"
    by simp
  from location_parsing [OF loc example_components, of exampleHost "''S''" "''T''" 1794000000000]
    good
  have 1: "\<exists>sd pd. buildSessionDocuments exampleHost exampleOptions ''S'' ''T'' 1794000000000
                     = Inr (sd, pd)
      \<and> map_of sd ''locationCoordinates'' =
          Some (Val (Obj [(''latitude'', N (129 / 10)), (''longitude'', N (388 / 5)),
                          (''accuracy'', Null),
                          (''capturedAt'', Str ''2026-11-06T21:20:00.000Z'')]))
      \<and> map_of pd ''locationCoordinates'' = map_of sd ''locationCoordinates''"
    by (simp add: example_latitude example_longitude example_now)
  from location_parsing [OF loc' bad_components, of exampleHost "''S''" "''T''" 1794000000000]
    bad
  have 2: "buildSessionDocuments exampleHost (exampleOptions\<lparr>location := Some ''12.9,north''\<rparr>)
        ''S'' ''T'' 1794000000000 =
       Inl (Error (''Invalid --location value: 12.9,north. Expected format is ''
                   @ quoted ''lat,lng''))"
    by simp
  from 1 2 show ?thesis by blast
qed

subsection \<open>The QR payload\<close>

lemma sessionDoc_shape:
  assumes "buildSessionDocuments h options sid tok now = Inr (sd, pd)"
  shows "\<exists>coords.
     sd = [(''sessionId'', Val (Str sid)),
           (''className'', Val (ofString (className options))),
           (''subject'', Val (ofString (subject options))),
           (''scheduledFor'', Val (Str (toISOString (now + 15 * 60 * 1000)))),
           (''location'', Val (Str (toFixed h (numberOf (getProp coords ''latitude'')) 5 @ '', ''
                                    @ toFixed h (numberOf (getProp coords ''longitude'')) 5))),
           (''locationCoordinates'', Val coords),
           (''durationMinutes'', Val (N 45)),
           (''status'', Val (Str ''scheduled'')),
           (''expectedAttendance'', Val (N 30)),
           (''attendees'', Val (Arr [])),
           (''sessionToken'', Val (Str tok)),
           (''qrCodeData'', Val (stringified (JSON_stringify h
              (Obj [(''sessionId'', Str sid),
                    (''sessionToken'', Str tok),
                    (''className'', ofString (className options)),
                    (''subject'', ofString (subject options)),
                    (''scheduledFor'', Str (toISOString (now + 15 * 60 * 1000))),
                    (''teacherId'', Str (teacherId options)),
                    (''durationMinutes'', N 45),
                    (''locationCoordinates'', coords)])))),
           (''createdAt'', ServerTimestamp)]"
  using assms
  by (auto simp: buildSessionDocuments_def Let_def getProp_def numberOf_def split: if_splits)

lemma example_qrText:
  "qrText (sessionDocOf
     (buildSessionDocuments exampleHost exampleOptions ''S'' ''T'' 1794000000000))
   = ''{'' @ quoted ''sessionId'' @ '':'' @ quoted ''S''
     @ '','' @ quoted ''sessionToken'' @ '':'' @ quoted ''T''
     @ '','' @ quoted ''className'' @ '':'' @ quoted ''Grade 9A''
     @ '','' @ quoted ''subject'' @ '':'' @ quoted ''Mathematics''
     @ '','' @ quoted ''scheduledFor'' @ '':'' @ quoted ''2026-11-06T21:35:00.000Z''
     @ '','' @ quoted ''teacherId'' @ '':'' @ quoted ''abc123''
     @ '','' @ quoted ''durationMinutes'' @ '':45''
     @ '','' @ quoted ''locationCoordinates'' @ '':{''
         @ quoted ''latitude'' @ '':12.9,'' @ quoted ''longitude'' @ '':77.6,''
         @ quoted ''accuracy'' @ '':null,''
         @ quoted ''capturedAt'' @ '':'' @ quoted ''2026-11-06T21:20:00.000Z'' @ ''}}''"
  by (simp add: buildSessionDocuments_def Let_def exampleOptions_def DEFAULTS_def nullish_def
      element_def example_components example_latitude example_longitude isNaN_def
      sessionDocOf_def qrText_def stringified_def JSON_stringify_def exampleHost_def
      example_now example_scheduledFor example_digits example_fixed ofString_def
      QuoteJSONString_def quoteChar_def quoted_def)

lemma example_status:
  "map_of (sessionDocOf
     (buildSessionDocuments exampleHost exampleOptions ''S'' ''T'' 1794000000000)) ''status''
   = Some (Val (Str ''scheduled''))"
  by (simp add: buildSessionDocuments_def Let_def exampleOptions_def DEFAULTS_def nullish_def
      element_def example_components example_latitude example_longitude isNaN_def
      sessionDocOf_def)

text \<open>
  Claim C4, as stated, fails: the session document of the example has the field
  \<^verbatim>\<open>status\<close>, and the word does not occur anywhere in its QR text, so no decoding of
  the text has that field.
\<close>

theorem qr_text_omits_status:
  "map_of (sessionDocOf
     (buildSessionDocuments exampleHost exampleOptions ''S'' ''T'' 1794000000000)) ''status''
     = Some (Val (Str ''scheduled''))
   \<and> \<not> str_includes
         (qrText (sessionDocOf
            (buildSessionDocuments exampleHost exampleOptions ''S'' ''T'' 1794000000000)))
         ''status''"
  by (simp only: example_status example_qrText) (simp add: quoted_def startsWith_def)

text \<open>
  Claim C4, amended. The \<^verbatim>\<open>qrCodeData\<close> of a session document that
  \<open>buildSessionDocuments\<close> returns is the JSON text of an object with the eight keys
  \<^verbatim>\<open>sessionId\<close>, \<^verbatim>\<open>sessionToken\<close>, \<^verbatim>\<open>className\<close>, \<^verbatim>\<open>subject\<close>,
  \<^verbatim>\<open>scheduledFor\<close>, \<^verbatim>\<open>teacherId\<close>, \<^verbatim>\<open>durationMinutes\<close> and
  \<^verbatim>\<open>locationCoordinates\<close>. Seven of them are fields of the session document and have
  its values in the encoded object; \<^verbatim>\<open>teacherId\<close> is the teacher id of the options and
  is no field of the session document. The other six fields of the session document
  (\<^verbatim>\<open>location\<close>, \<^verbatim>\<open>status\<close>, \<^verbatim>\<open>expectedAttendance\<close>, \<^verbatim>\<open>attendees\<close>,
  \<^verbatim>\<open>qrCodeData\<close>, \<^verbatim>\<open>createdAt\<close>) are not in the payload.
\<close>

theorem qr_payload_fields:
  assumes "buildSessionDocuments h options sid tok now = Inr (sd, pd)"
  shows "\<exists>payload.
           map_of sd ''qrCodeData'' = Some (Val (stringified (JSON_stringify h (Obj payload))))
         \<and> map fst payload =
             [''sessionId'', ''sessionToken'', ''className'', ''subject'', ''scheduledFor'',
              ''teacherId'', ''durationMinutes'', ''locationCoordinates'']
         \<and> map fst sd =
             [''sessionId'', ''className'', ''subject'', ''scheduledFor'', ''location'',
              ''locationCoordinates'', ''durationMinutes'', ''status'', ''expectedAttendance'',
              ''attendees'', ''sessionToken'', ''qrCodeData'', ''createdAt'']
         \<and> (\<forall>k \<in> set [''sessionId'', ''sessionToken'', ''className'', ''subject'',
                        ''scheduledFor'', ''durationMinutes'', ''locationCoordinates''].
               map_option Val (map_of payload k) = map_of sd k)
         \<and> map_of payload ''teacherId'' = Some (Str (teacherId options))
         \<and> map_of sd ''teacherId'' = None
         \<and> (\<forall>k \<in> set [''location'', ''status'', ''expectedAttendance'', ''attendees'',
                        ''qrCodeData'', ''createdAt''].
               map_of payload k = None \<and> map_of sd k \<noteq> None)"
proof -
  from sessionDoc_shape [OF assms] obtain coords where
    sd: "sd = [(''sessionId'', Val (Str sid)),
           (''className'', Val (ofString (className options))),
           (''subject'', Val (ofString (subject options))),
           (''scheduledFor'', Val (Str (toISOString (now + 15 * 60 * 1000)))),
           (''location'', Val (Str (toFixed h (numberOf (getProp coords ''latitude'')) 5 @ '', ''
                                    @ toFixed h (numberOf (getProp coords ''longitude'')) 5))),
           (''locationCoordinates'', Val coords),
           (''durationMinutes'', Val (N 45)),
           (''status'', Val (Str ''scheduled'')),
           (''expectedAttendance'', Val (N 30)),
           (''attendees'', Val (Arr [])),
           (''sessionToken'', Val (Str tok)),
           (''qrCodeData'', Val (stringified (JSON_stringify h
              (Obj [(''sessionId'', Str sid),
                    (''sessionToken'', Str tok),
                    (''className'', ofString (className options)),
                    (''subject'', ofString (subject options)),
                    (''scheduledFor'', Str (toISOString (now + 15 * 60 * 1000))),
                    (''teacherId'', Str (teacherId options)),
                    (''durationMinutes'', N 45),
                    (''locationCoordinates'', coords)])))),
           (''createdAt'', ServerTimestamp)]"
    by blast
  show ?thesis
    apply (rule exI [where x = "[(''sessionId'', Str sid),
                    (''sessionToken'', Str tok),
                    (''className'', ofString (className options)),
                    (''subject'', ofString (subject options)),
                    (''scheduledFor'', Str (toISOString (now + 15 * 60 * 1000))),
                    (''teacherId'', Str (teacherId options)),
                    (''durationMinutes'', N 45),
                    (''locationCoordinates'', coords)]"])
    apply (simp add: sd)
    done
qed

theorem qr_payload_fields_witness:
  "\<exists>sd pd payload.
       buildSessionDocuments exampleHost exampleOptions ''S'' ''T'' 1794000000000 = Inr (sd, pd)
     \<and> map_of sd ''qrCodeData'' =
         Some (Val (stringified (JSON_stringify exampleHost (Obj payload))))
     \<and> map_of payload ''sessionToken'' = Some (Str ''T'')
     \<and> map_of sd ''sessionToken'' = Some (Val (Str ''T''))
     \<and> map_of payload ''teacherId'' = Some (Str ''abc123'')
     \<and> map_of payload ''status'' = None"
proof -
  obtain sd pd where
    b: "buildSessionDocuments exampleHost exampleOptions ''S'' ''T'' 1794000000000 = Inr (sd, pd)"
    using example_build by blast
  from qr_payload_fields [OF b] obtain payload where
    p: "map_of sd ''qrCodeData'' =
          Some (Val (stringified (JSON_stringify exampleHost (Obj payload))))"
       "\<forall>k \<in> set [''sessionId'', ''sessionToken'', ''className'', ''subject'',
                    ''scheduledFor'', ''durationMinutes'', ''locationCoordinates''].
            map_option Val (map_of payload k) = map_of sd k"
       "map_of payload ''teacherId'' = Some (Str (teacherId exampleOptions))"
       "\<forall>k \<in> set [''location'', ''status'', ''expectedAttendance'', ''attendees'',
                    ''qrCodeData'', ''createdAt''].
            map_of payload k = None \<and> map_of sd k \<noteq> None"
    by blast
  from sessionDoc_shape [OF b] have tok: "map_of sd ''sessionToken'' = Some (Val (Str ''T''))"
    by auto
  from p(2) tok have "map_of payload ''sessionToken'' = Some (Str ''T'')"
    by auto
  moreover from p(4) have "map_of payload ''status'' = None"
    by simp
  moreover from p(3) have "map_of payload ''teacherId'' = Some (Str ''abc123'')"
    by (simp add: exampleOptions_def)
  ultimately show ?thesis using b p(1) tok by blast
qed

subsection \<open>The analytics payload\<close>

text \<open>
  Claim C8, as stated, fails: two options with the same teacher id and the same class name
  that differ in the subject give different payloads at the same time.
\<close>

theorem analytics_depends_on_subject:
  "teacherId exampleOptions = teacherId (exampleOptions\<lparr>subject := Some ''Physics''\<rparr>)
   \<and> className exampleOptions = className (exampleOptions\<lparr>subject := Some ''Physics''\<rparr>)
   \<and> buildAnalyticsPayload exampleOptions 1794000000000
       \<noteq> buildAnalyticsPayload (exampleOptions\<lparr>subject := Some ''Physics''\<rparr>) 1794000000000"
  by (simp add: buildAnalyticsPayload_def Let_def exampleOptions_def DEFAULTS_def ofString_def)

text \<open>
  Claim C8, amended. The payload of \<open>buildAnalyticsPayload\<close> is sample data apart from the
  teacher id, the class name and the subject: two options that agree on these three give
  the same payload when the clock gives the same time (so the payloads of two calls differ
  in their timestamps at most), and the teacher name, the skip flag, the session id and the
  location do not change it.
\<close>

theorem analytics_depends_on_three_options:
  assumes "teacherId o1 = teacherId o2" and "className o1 = className o2"
      and "subject o1 = subject o2"
  shows "buildAnalyticsPayload o1 now = buildAnalyticsPayload o2 now"
  using assms by (simp add: buildAnalyticsPayload_def)

theorem analytics_depends_on_three_options_witness:
  "buildAnalyticsPayload exampleOptions 1794000000000 =
   buildAnalyticsPayload
     (exampleOptions\<lparr>teacherName := Some ''Ada'', skipSession := True, sessionId := Some ''s1'',
                      location := None\<rparr>) 1794000000000"
  by (rule analytics_depends_on_three_options) simp_all

subsection \<open>Traces\<close>

lemma writes_append: "writes (xs @ ys) = writes xs @ writes ys"
  by (induction xs rule: writes.induct) auto

lemma fst_andThen:
  "fst (andThen m f) = fst m @ (case snd m of Returned x \<Rightarrow> fst (f x) | _ \<Rightarrow> [])"
  by (simp add: andThen_def split: outcome.splits)

lemma snd_andThen:
  "snd (andThen m f) =
     (case snd m of Returned x \<Rightarrow> snd (f x) | Thrown e \<Rightarrow> Thrown e | Exited n \<Rightarrow> Exited n)"
  by (simp add: andThen_def split: outcome.splits)


lemma seed_writes:
  "writes (fst (seed h options path)) =
     (if snd (loadServiceAccount h path) = Returned () \<and> validDocId h (teacherId options) then
        ([''teachers'', teacherId options],
         [(''displayName'', Val (ofString (teacherName options))),
          (''createdAt'', ServerTimestamp),
          (''updatedAt'', ServerTimestamp)])
        # (if setDoc h [''teachers'', teacherId options]
                [(''displayName'', Val (ofString (teacherName options))),
                 (''createdAt'', ServerTimestamp),
                 (''updatedAt'', ServerTimestamp)] = None
           then (if skipSession options then []
                 else writes (fst (seedSession h options [''teachers'', teacherId options])))
                @ (if skipSession options
                      \<or> snd (seedSession h options [''teachers'', teacherId options]) = Returned ()
                   then [([''teacherAnalytics'', teacherId options],
                          buildAnalyticsPayload options
                            (clock h (if skipSession options then 0 else 1)))]
                   else [])
           else [])
      else [])"
proof -
  have load: "writes (fst (loadServiceAccount h path)) = []"
    by (simp add: loadServiceAccount_def fst_andThen split: sum.splits option.splits)
  show ?thesis
    by (cases "snd (loadServiceAccount h path)";
        cases "snd (seedSession h options [''teachers'', teacherId options])")
       (simp_all add: seed_def fst_andThen snd_andThen doc_def set_merge_def emit_def
          writes_append load split: option.splits)
qed

lemma example_load: "snd (loadServiceAccount exampleHost exampleCredential) = Returned ()"
  by (simp add: loadServiceAccount_def snd_andThen exampleHost_def exampleFiles_def
      exampleCredential_def)

lemma refusing_load: "snd (loadServiceAccount refusingHost exampleCredential) = Returned ()"
  by (simp add: loadServiceAccount_def snd_andThen refusingHost_def exampleHost_def
      exampleFiles_def exampleCredential_def)

subsection \<open>Runs that skip the session\<close>

text \<open>
  Claim C2, as stated, fails: with \<^verbatim>\<open>skipSession\<close> set and a store that refuses the
  teacher document, the run reaches the write stage (it issues the teacher write) and never
  issues the analytics write.
\<close>

theorem skip_session_without_analytics_write:
  "skipSession (exampleOptions\<lparr>skipSession := True\<rparr>)
   \<and> map fst (writes (fst (seed refusingHost (exampleOptions\<lparr>skipSession := True\<rparr>)
                               exampleCredential)))
       = [[''teachers'', ''abc123'']]"
  by (simp add: seed_writes refusing_load)
     (simp add: refusingHost_def exampleHost_def exampleOptions_def)

text \<open>
  Claim C2, amended. In a run with \<^verbatim>\<open>skipSession\<close> set that reaches the write stage,
  no session document and no public-session document is written; the teacher document is
  written first, and the analytics snapshot is written exactly when the store acknowledges
  the teacher write (a refused write ends the run).
\<close>

theorem skip_session_writes:
  assumes "skipSession options"
      and "writes (fst (seed h options path)) \<noteq> []"
  shows "map fst (writes (fst (seed h options path))) =
           [''teachers'', teacherId options]
           # (if setDoc h [''teachers'', teacherId options]
                   [(''displayName'', Val (ofString (teacherName options))),
                    (''createdAt'', ServerTimestamp),
                    (''updatedAt'', ServerTimestamp)] = None
              then [[''teacherAnalytics'', teacherId options]] else [])
       \<and> list_all (\<lambda>w. \<not> isSessionPath (fst w) \<and> \<not> isPublicSessionPath (fst w))
            (writes (fst (seed h options path)))"
  using assms
  by (simp add: seed_writes isSessionPath_def isPublicSessionPath_def split: if_splits)

theorem skip_session_writes_witness:
  "map fst (writes (fst (seed exampleHost (exampleOptions\<lparr>skipSession := True\<rparr>)
                           exampleCredential)))
     = [[''teachers'', ''abc123''], [''teacherAnalytics'', ''abc123'']]
   \<and> list_all (\<lambda>w. \<not> isSessionPath (fst w) \<and> \<not> isPublicSessionPath (fst w))
        (writes (fst (seed exampleHost (exampleOptions\<lparr>skipSession := True\<rparr>)
                        exampleCredential)))"
proof -
  have skip: "skipSession (exampleOptions\<lparr>skipSession := True\<rparr>)"
    by simp
  have reached:
    "writes (fst (seed exampleHost (exampleOptions\<lparr>skipSession := True\<rparr>) exampleCredential))
       \<noteq> []"
    by (simp add: seed_writes example_load) (simp add: exampleHost_def exampleOptions_def)
  have ack: "setDoc exampleHost ref data = None" for ref data
    by (simp add: exampleHost_def)
  have tid: "teacherId (exampleOptions\<lparr>skipSession := True\<rparr>) = ''abc123''"
    by (simp add: exampleOptions_def)
  from skip_session_writes [OF skip reached] show ?thesis
    by (simp add: ack tid)
qed

subsection \<open>The session token\<close>




















subsection \<open>Session token and session id\<close>




subsection \<open>A run without a teacher id\<close>

lemma parseFlag_events: "filter outside (snd (snd (parseFlag parsed key next))) = []"
  by (simp add: parseFlag_def outside_def)

lemma parseArgs_from_events: "filter outside (snd (parseArgs_from parsed argv)) = []"
  by (induction parsed argv rule: parseArgs_from.induct)
     (simp_all add: Let_def parseFlag_events)

text \<open>
  Claim C5. When the parsed arguments hold no help flag and no teacher id (none at all, an
  undefined one or the empty text), the run prints the warnings of the parser, then the
  usage text, then the failure lines on the error stream with the message of the missing
  flag, and ends with exit code 1; the credential file is never read and no write is handed
  to the store.
\<close>

theorem missing_teacher:
  assumes "parsed_help (fst (parseArgs argv)) \<noteq> Some True"
      and "\<not> truthy (readProp (parsed_teacherId (fst (parseArgs argv))))"
  shows "main h argv =
           (snd (parseArgs argv)
            @ [Log usage,
               ErrorLog ([CHR 0x0A] @ ''Failed to seed Firestore:''),
               ErrorLog ''Missing required flag: --teacher <firebase-uid>''], 1)
       \<and> filter outside (fst (main h argv)) = []"
proof -
  have run: "main h argv =
           (snd (parseArgs argv)
            @ [Log usage,
               ErrorLog ([CHR 0x0A] @ ''Failed to seed Firestore:''),
               ErrorLog ''Missing required flag: --teacher <firebase-uid>''], 1)"
    using assms
    by (simp add: main_def Let_def fst_andThen snd_andThen coerceOptions_def printUsage_def
        emit_def message_def)
  have "filter outside (snd (parseArgs argv)) = []"
    by (simp add: parseArgs_def parseArgs_from_events)
  with run show ?thesis
    by (simp add: outside_def)
qed

theorem missing_teacher_witness:
  "main exampleHost [''--name'', ''Ada'', ''--verbose''] =
     ([Warn ''Ignoring unknown flag --verbose'',
       Log usage,
       ErrorLog ([CHR 0x0A] @ ''Failed to seed Firestore:''),
       ErrorLog ''Missing required flag: --teacher <firebase-uid>''], 1)
   \<and> filter outside (fst (main exampleHost [''--name'', ''Ada'', ''--verbose''])) = []"
proof -
  have parsed: "parseArgs [''--name'', ''Ada'', ''--verbose''] =
      (emptyParsed\<lparr>parsed_teacherName := Some (Some ''Ada'')\<rparr>,
       [Warn ''Ignoring unknown flag --verbose''])"
    by (simp add: parseArgs_def parseFlag_def startsWith_def slice_from_def element_def Let_def)
  have no_help: "parsed_help (fst (parseArgs [''--name'', ''Ada'', ''--verbose''])) \<noteq> Some True"
    by (simp add: parsed emptyParsed_def)
  have no_teacher:
    "\<not> truthy (readProp (parsed_teacherId (fst (parseArgs [''--name'', ''Ada'', ''--verbose'']))))"
    by (simp add: parsed emptyParsed_def readProp_def truthy_def)
  note run = missing_teacher [OF no_help no_teacher, of exampleHost]
  from run [THEN conjunct1]
  have trace: "main exampleHost [''--name'', ''Ada'', ''--verbose''] =
     ([Warn ''Ignoring unknown flag --verbose'',
       Log usage,
       ErrorLog ([CHR 0x0A] @ ''Failed to seed Firestore:''),
       ErrorLog ''Missing required flag: --teacher <firebase-uid>''], 1)"
    by (simp add: parsed)
  show ?thesis
    by (rule conjI [OF trace run [THEN conjunct2]])
qed

subsection \<open>Finding the service account\<close>

text \<open>
  Claim C6, as stated, fails: with an explicit path that does not exist,
  \<open>detectServiceAccount\<close> throws although the scan of the repository root has a candidate,
  which the same host returns when no path is given.
\<close>

theorem explicit_path_missing_despite_candidate:
  "detectServiceAccount exampleHost (Some ''missing.json'') =
     ([], Thrown (Error ''Service account file not found at /home/dev/code/frontend/missing.json''))
   \<and> detectServiceAccount exampleHost None =
     ([Log ''Using service account file: /home/dev/code/demo-firebase-adminsdk-abc12.json''],
      Returned ''/home/dev/code/demo-firebase-adminsdk-abc12.json'')"
  by (simp add: detectServiceAccount_def truthy_def nullish_def exampleHost_def exampleResolve_def
      exampleFiles_def startsWith_def isCandidate_def endsWith_def Let_def)

text \<open>
  Claim C6, amended. \<open>detectServiceAccount\<close> takes the first source that is supplied and
  never falls through from it: (a) an explicit path (not empty) is resolved against the
  working directory and returned if it exists, else the call throws the
  \<^verbatim>\<open>not found\<close> error; (b) otherwise a path in the environment variable is treated the
  same way, with its own message; (c) otherwise the first file of the repository root whose
  name contains \<^verbatim>\<open>firebase-adminsdk\<close> and ends in \<^verbatim>\<open>.json\<close> is resolved against
  the root, logged and returned, and the call throws when there is none. So the call throws
  exactly when the supplied explicit path does not exist, or no explicit path is supplied and
  the supplied environment path does not exist, or neither is supplied and the scan fails or
  finds no candidate.
\<close>

theorem service_account_sources:
  "(truthy explicitPath \<longrightarrow>
      detectServiceAccount h explicitPath =
        (if existsSync h (resolve h (cwd h) (nullish explicitPath []))
         then ([], Returned (resolve h (cwd h) (nullish explicitPath [])))
         else ([], Thrown (Error (''Service account file not found at ''
                                   @ resolve h (cwd h) (nullish explicitPath []))))))
   \<and> (\<not> truthy explicitPath \<and> truthy (envServiceAccountPath h) \<longrightarrow>
      detectServiceAccount h explicitPath =
        (if existsSync h (resolve h (cwd h) (nullish (envServiceAccountPath h) []))
         then ([], Returned (resolve h (cwd h) (nullish (envServiceAccountPath h) [])))
         else ([], Thrown (Error
                 (''Service account file from FIREBASE_SERVICE_ACCOUNT_PATH not found at ''
                  @ resolve h (cwd h) (nullish (envServiceAccountPath h) []))))))
   \<and> (\<not> truthy explicitPath \<and> \<not> truthy (envServiceAccountPath h) \<longrightarrow>
      (\<forall>files. readdirSync h (repoRoot h) = Inr files \<longrightarrow>
         detectServiceAccount h explicitPath =
           (case filter isCandidate files of
              [] \<Rightarrow> ([], Thrown (Error (''No service account JSON found. Set ''
                          @ ''FIREBASE_SERVICE_ACCOUNT_PATH or pass --service-account <path>.'')))
            | chosen # _ \<Rightarrow>
                ([Log (''Using service account file: '' @ resolve h (repoRoot h) chosen)],
                 Returned (resolve h (repoRoot h) chosen)))))
   \<and> (isThrown (detectServiceAccount h explicitPath) \<longleftrightarrow>
        (if truthy explicitPath
         then \<not> existsSync h (resolve h (cwd h) (nullish explicitPath []))
         else if truthy (envServiceAccountPath h)
         then \<not> existsSync h (resolve h (cwd h) (nullish (envServiceAccountPath h) []))
         else (case readdirSync h (repoRoot h) of
                 Inl e \<Rightarrow> True
               | Inr files \<Rightarrow> filter isCandidate files = [])))"
proof -
  have scan: "detectServiceAccount h explicitPath =
           (case filter isCandidate files of
              [] \<Rightarrow> ([], Thrown (Error (''No service account JSON found. Set ''
                          @ ''FIREBASE_SERVICE_ACCOUNT_PATH or pass --service-account <path>.'')))
            | chosen # _ \<Rightarrow>
                ([Log (''Using service account file: '' @ resolve h (repoRoot h) chosen)],
                 Returned (resolve h (repoRoot h) chosen)))"
    if "\<not> truthy explicitPath" "\<not> truthy (envServiceAccountPath h)"
       "readdirSync h (repoRoot h) = Inr files" for files
    using that by (cases "filter isCandidate files") (simp_all add: detectServiceAccount_def Let_def)
  have throws: "isThrown (detectServiceAccount h explicitPath) \<longleftrightarrow>
        (if truthy explicitPath
         then \<not> existsSync h (resolve h (cwd h) (nullish explicitPath []))
         else if truthy (envServiceAccountPath h)
         then \<not> existsSync h (resolve h (cwd h) (nullish (envServiceAccountPath h) []))
         else (case readdirSync h (repoRoot h) of
                 Inl e \<Rightarrow> True
               | Inr files \<Rightarrow> filter isCandidate files = []))"
    by (simp add: detectServiceAccount_def Let_def isThrown_def split: sum.splits)
  show ?thesis
    using scan throws by (simp add: detectServiceAccount_def Let_def)
qed

theorem service_account_sources_witness:
  "detectServiceAccount exampleHost (Some ''key.json'') =
     ([], Returned ''/home/dev/code/frontend/key.json'')
   \<and> isThrown (detectServiceAccount exampleHost (Some ''missing.json''))
   \<and> detectServiceAccount (exampleHost\<lparr>envServiceAccountPath := Some ''key.json''\<rparr>) None =
     ([], Returned ''/home/dev/code/frontend/key.json'')
   \<and> detectServiceAccount exampleHost (Some []) =
     ([Log ''Using service account file: /home/dev/code/demo-firebase-adminsdk-abc12.json''],
      Returned ''/home/dev/code/demo-firebase-adminsdk-abc12.json'')"
proof -
  have host:
    "cwd exampleHost = ''/home/dev/code/frontend''"
    "repoRoot exampleHost = ''/home/dev/code''"
    "envServiceAccountPath exampleHost = None"
    "resolve exampleHost = exampleResolve"
    "existsSync exampleHost = (\<lambda>path. path \<in> set exampleFiles)"
    "readdirSync exampleHost ''/home/dev/code'' =
       Inr [''README.md'', ''demo-firebase-adminsdk-abc12.json'', ''frontend'']"
    by (simp_all add: exampleHost_def)
  have res:
    "exampleResolve ''/home/dev/code/frontend'' ''key.json'' = ''/home/dev/code/frontend/key.json''"
    "exampleResolve ''/home/dev/code/frontend'' ''missing.json''
       = ''/home/dev/code/frontend/missing.json''"
    "exampleResolve ''/home/dev/code'' ''demo-firebase-adminsdk-abc12.json''
       = ''/home/dev/code/demo-firebase-adminsdk-abc12.json''"
    by (simp_all add: exampleResolve_def startsWith_def)
  have cand:
    "\<not> isCandidate ''README.md''" "isCandidate ''demo-firebase-adminsdk-abc12.json''"
    "\<not> isCandidate ''frontend''"
    by (simp_all add: isCandidate_def startsWith_def endsWith_def)
  have t: "truthy (Some ''key.json'')" "truthy (Some ''missing.json'')" "\<not> truthy (Some [])"
    "\<not> truthy None"
    by (simp_all add: truthy_def)
  from service_account_sources [of "Some ''key.json''" exampleHost] t
  have 1: "detectServiceAccount exampleHost (Some ''key.json'') =
     ([], Returned ''/home/dev/code/frontend/key.json'')"
    by (simp add: host res nullish_def exampleFiles_def)
  from service_account_sources [of "Some ''missing.json''" exampleHost] t
  have 2: "isThrown (detectServiceAccount exampleHost (Some ''missing.json''))"
    by (simp add: host res nullish_def exampleFiles_def isThrown_def)
  from service_account_sources
    [of None "exampleHost\<lparr>envServiceAccountPath := Some ''key.json''\<rparr>"] t
  have 3: "detectServiceAccount (exampleHost\<lparr>envServiceAccountPath := Some ''key.json''\<rparr>) None =
     ([], Returned ''/home/dev/code/frontend/key.json'')"
    by (simp add: host res nullish_def exampleFiles_def)
  from service_account_sources [of "Some []" exampleHost] t
  have 4: "detectServiceAccount exampleHost (Some []) =
     ([Log ''Using service account file: /home/dev/code/demo-firebase-adminsdk-abc12.json''],
      Returned ''/home/dev/code/demo-firebase-adminsdk-abc12.json'')"
    by (simp add: host res cand)
  from 1 2 3 4 show ?thesis by blast
qed

end
